theory Spec2Isabelle
  imports Complex_Main "HOL-Library.Sublist" "HOL-Library.Multiset"
begin

section \<open>JavaScript values used by the program\<close>

text \<open>
  The program is TypeScript. A JavaScript string is modelled as a \<^typ>\<open>string\<close>
  (one \<^typ>\<open>char\<close> per code unit; addresses and targets are ASCII), an integral
  \<open>number\<close> as an \<^typ>\<open>int\<close>, an optional field \<open>x?: T\<close> as \<open>T option\<close>
  (\<open>None\<close> is \<open>undefined\<close>), and \<open>throw new Error(msg)\<close> as the left
  injection \<open>Inl (Error msg)\<close> of a sum type.
\<close>

datatype JsError = Error string

subsection \<open>Strings\<close>

text \<open>\<open>String.prototype.toLowerCase\<close>, on ASCII: the letters A to Z are mapped, every
  other code unit is kept.\<close>

definition toLowerCase_char :: "char \<Rightarrow> char" where
  "toLowerCase_char c =
     (case map_of (zip ''ABCDEFGHIJKLMNOPQRSTUVWXYZ'' ''abcdefghijklmnopqrstuvwxyz'') c of
        Some l \<Rightarrow> l
      | None \<Rightarrow> c)"

definition toLowerCase :: "string \<Rightarrow> string" where
  "toLowerCase s = map toLowerCase_char s"

text \<open>
  \<open>String.prototype.slice(start, end)\<close>: a negative index counts from the end of the
  string, every index is clamped to \<open>[0, length]\<close>, and the result is empty when the
  clamped start is not below the clamped end. \<open>end\<close> is optional and defaults to the
  length.
\<close>

definition slice_index :: "nat \<Rightarrow> int \<Rightarrow> nat" where
  "slice_index len i = (if i < 0 then nat (max (int len + i) 0) else min (nat i) len)"

definition slice :: "string \<Rightarrow> int \<Rightarrow> int option \<Rightarrow> string" where
  "slice s start fin =
     (let len = length s;
          lo = slice_index len start;
          hi = (case fin of None \<Rightarrow> len | Some e \<Rightarrow> slice_index len e)
      in if hi \<le> lo then [] else take (hi - lo) (drop lo s))"

text \<open>
  \<open>startsWith\<close> compares the first \<open>length t\<close> code units of \<open>s\<close> with \<open>t\<close> and is
  false when \<open>t\<close> is longer than \<open>s\<close>; \<open>endsWith\<close> does the same with the last
  ones; \<open>includes\<close> tries every start index from the left.
\<close>

definition startsWith :: "string \<Rightarrow> string \<Rightarrow> bool" where
  "startsWith s t = (length t \<le> length s \<and> take (length t) s = t)"

definition endsWith :: "string \<Rightarrow> string \<Rightarrow> bool" where
  "endsWith s t = (length t \<le> length s \<and> drop (length s - length t) s = t)"

fun includes_str :: "string \<Rightarrow> string \<Rightarrow> bool" where
  "includes_str [] t = startsWith [] t"
| "includes_str (c # s) t = (startsWith (c # s) t \<or> includes_str s t)"

text \<open>\<open>Array.prototype.join\<close> with a separator.\<close>

fun join :: "string list \<Rightarrow> string \<Rightarrow> string" where
  "join [] sep = []"
| "join [x] sep = x"
| "join (x # y # xs) sep = x @ sep @ join (y # xs) sep"

text \<open>Decimal rendering of an integral number inside a template literal.\<close>

definition digit_char :: "nat \<Rightarrow> char" where
  "digit_char d = ''0123456789'' ! d"

function string_of_nat :: "nat \<Rightarrow> string" where
  "string_of_nat n =
     (if n < 10 then [digit_char n]
      else string_of_nat (n div 10) @ [digit_char (n mod 10)])"
  by pat_completeness auto
termination
  by (relation "measure id") auto

declare string_of_nat.simps [simp del]

definition string_of_int :: "int \<Rightarrow> string" where
  "string_of_int i = (if i < 0 then ''-'' @ string_of_nat (nat (- i)) else string_of_nat (nat i))"

definition string_of_optional :: "int option \<Rightarrow> string" where
  "string_of_optional p = (case p of None \<Rightarrow> ''undefined'' | Some i \<Rightarrow> string_of_int i)"

subsection \<open>Numbers that may be the result of a division\<close>

text \<open>
  JavaScript division never fails: a non-zero number divided by zero is an infinity and
  \<open>0 / 0\<close> is \<open>NaN\<close>. Finite results are kept exact (rationals): the rounding of
  a quotient to a double is outside the model, the overflow of a power is not.
\<close>

datatype jsnum = Num rat | PosInfinity | NegInfinity | NaN

definition js_div :: "rat \<Rightarrow> rat \<Rightarrow> jsnum" where
  "js_div a b =
     (if b \<noteq> 0 then Num (a / b)
      else if 0 < a then PosInfinity
      else if a < 0 then NegInfinity
      else NaN)"

text \<open>\<open>Math.round\<close>: the nearest integer, a half rounded up; infinities and \<open>NaN\<close> are kept.\<close>

definition Math_round :: "jsnum \<Rightarrow> jsnum" where
  "Math_round x = (case x of Num q \<Rightarrow> Num (of_int \<lfloor>q + 1 / 2\<rfloor>) | _ \<Rightarrow> x)"

text \<open>
  \<open>Math.pow\<close> with a natural exponent. The result is a double: a power that reaches
  \<open>2 ^ 1024\<close> overflows to \<open>Infinity\<close>. Below that bound a power of 16, the only
  base of the program, is a power of two and is held exactly.
\<close>

definition Math_pow :: "rat \<Rightarrow> nat \<Rightarrow> jsnum" where
  "Math_pow b n = (if b ^ n < 2 ^ 1024 then Num (b ^ n) else PosInfinity)"

text \<open>The quotient of a number that may be infinite by a finite one; a zero divisor
  is the positive zero.\<close>

definition js_div_num :: "jsnum \<Rightarrow> rat \<Rightarrow> jsnum" where
  "js_div_num x b =
     (case x of
        Num a \<Rightarrow> js_div a b
      | PosInfinity \<Rightarrow> (if b < 0 then NegInfinity else PosInfinity)
      | NegInfinity \<Rightarrow> (if b < 0 then PosInfinity else NegInfinity)
      | NaN \<Rightarrow> NaN)"

section \<open>types.ts\<close>

text \<open>
  \<open>SearchMode\<close> is a union of four string literals; at run time it is a string, and
  the matcher has a \<open>default\<close> branch for any other string, so the mode is a string here.
\<close>

type_synonym SearchMode = string

record GeneratorConfig =
  target :: string
  searchMode :: SearchMode
  position :: "int option"
  caseSensitive :: bool
  numWorkers :: int

section \<open>worker.ts: the matcher\<close>

definition matchesTarget ::
  "string \<Rightarrow> string \<Rightarrow> SearchMode \<Rightarrow> bool \<Rightarrow> int option \<Rightarrow> JsError + bool" where
  "matchesTarget address tgt mode caseSens pos =
     (let addr = slice address 2 None;
          processedAddr = (if caseSens then addr else toLowerCase addr);
          processedTarget = (if caseSens then tgt else toLowerCase tgt)
      in if mode = ''anywhere'' then Inr (includes_str processedAddr processedTarget)
         else if mode = ''start'' then Inr (startsWith processedAddr processedTarget)
         else if mode = ''end'' then Inr (endsWith processedAddr processedTarget)
         else if mode = ''position'' then
           (case pos of
              None \<Rightarrow> Inr False
            | Some p \<Rightarrow>
                Inr (slice processedAddr p (Some (p + int (length processedTarget)))
                       = processedTarget))
         else Inl (Error (''Unknown search mode: '' @ mode)))"

section \<open>utils.ts\<close>

definition isHexChar :: "char \<Rightarrow> bool" where
  "isHexChar c = (c \<in> set ''0123456789abcdefABCDEF'')"

fun allHex :: "string \<Rightarrow> bool" where
  "allHex [] = True"
| "allHex (c # cs) = (isHexChar c \<and> allHex cs)"

text \<open>The regular expression \<open>/^[0-9a-fA-F]+$/\<close>: one or more characters, all of them
  hexadecimal digits.\<close>

definition validateTarget :: "string \<Rightarrow> bool" where
  "validateTarget tgt = (tgt \<noteq> [] \<and> allHex tgt)"

definition validatePosition :: "int \<Rightarrow> int \<Rightarrow> bool" where
  "validatePosition pos targetLength = (pos \<ge> 0 \<and> pos \<le> 40 - targetLength)"

definition dq :: string where
  "dq = [CHR 0x22]"

definition getSearchDescription :: "string \<Rightarrow> SearchMode \<Rightarrow> bool \<Rightarrow> int option \<Rightarrow> string" where
  "getSearchDescription tgt mode caseSens pos =
     (let caseNote = (if caseSens then '' (case-sensitive)'' else '' (case-insensitive)'')
      in if mode = ''anywhere'' then ''containing '' @ dq @ tgt @ dq @ '' anywhere'' @ caseNote
         else if mode = ''start'' then ''starting with '' @ dq @ tgt @ dq @ caseNote
         else if mode = ''end'' then ''ending with '' @ dq @ tgt @ dq @ caseNote
         else if mode = ''position'' then
           ''with '' @ dq @ tgt @ dq @ '' at position '' @ string_of_optional pos @ caseNote
         else ''matching '' @ dq @ tgt @ dq @ caseNote)"

record PerformanceStats =
  s_totalAttempts :: int
  s_totalTime :: rat
  avgAddressesPerSecond :: jsnum
  currentAddressesPerSecond :: jsnum

text \<open>\<open>Date.now()\<close> is read once; its value (milliseconds) is the last argument.\<close>

definition calculatePerformanceStats :: "int \<Rightarrow> int \<Rightarrow> int \<Rightarrow> int \<Rightarrow> int \<Rightarrow> PerformanceStats" where
  "calculatePerformanceStats totAttempts startT lastUpdateT lastUpdateA currentTime =
     (let totalTime = of_int (currentTime - startT) / 1000;
          intervalTime = of_int (currentTime - lastUpdateT) / 1000
      in \<lparr> s_totalAttempts = totAttempts,
           s_totalTime = totalTime,
           avgAddressesPerSecond = js_div (of_int totAttempts) totalTime,
           currentAddressesPerSecond = js_div (of_int (totAttempts - lastUpdateA)) intervalTime \<rparr>)"

definition nl :: string where
  "nl = [CHR 0x0A]"

text \<open>The error messages are pushed in the order of the checks.\<close>

definition validateConfig :: "GeneratorConfig \<Rightarrow> string list" where
  "validateConfig cfg =
     (if target cfg = [] then [''Target string cannot be empty''] else [])
     @ (if \<not> validateTarget (target cfg)
        then [''Target must contain only hexadecimal characters (0-9, a-f, A-F)''] else [])
     @ (if length (target cfg) > 40
        then [''Target cannot be longer than 40 characters''] else [])
     @ (if searchMode cfg = ''position'' then
          (case position cfg of
             None \<Rightarrow> [''Position must be specified for position search mode'']
           | Some p \<Rightarrow>
               if \<not> validatePosition p (int (length (target cfg)))
               then [''Position must be between 0 and ''
                       @ string_of_int (40 - int (length (target cfg)))
                       @ '' for target length '' @ string_of_nat (length (target cfg))]
               else [])
        else [])
     @ (if numWorkers cfg < 1 then [''Number of workers must be at least 1''] else [])"

record DifficultyEstimate =
  difficulty :: jsnum
  description :: string

text \<open>
  \<open>formatNumber\<close> is \<open>num.toLocaleString()\<close>, whose output depends on the host's
  locale: it is the parameter \<open>fmt\<close>.
\<close>

definition estimateDifficulty ::
  "(jsnum \<Rightarrow> string) \<Rightarrow> string \<Rightarrow> SearchMode \<Rightarrow> bool \<Rightarrow> DifficultyEstimate" where
  "estimateDifficulty fmt tgt mode caseSens =
     (let targetLength = length tgt;
          base = (if caseSens then 16 else 16 :: rat)
      in if mode = ''start'' then
           \<lparr> difficulty = Math_pow base targetLength,
             description = ''~1 in '' @ fmt (Math_pow base targetLength) \<rparr>
         else if mode = ''end'' then
           \<lparr> difficulty = Math_pow base targetLength,
             description = ''~1 in '' @ fmt (Math_pow base targetLength) \<rparr>
         else if mode = ''position'' then
           \<lparr> difficulty = Math_pow base targetLength,
             description = ''~1 in '' @ fmt (Math_pow base targetLength) \<rparr>
         else if mode = ''anywhere'' then
           \<lparr> difficulty =
               js_div_num (Math_pow base targetLength) (40 - of_nat targetLength + 1),
             description =
               ''~1 in ''
               @ fmt (Math_round
                       (js_div_num (Math_pow base targetLength) (40 - of_nat targetLength + 1))) \<rparr>
         else
           \<lparr> difficulty = Math_pow base targetLength,
             description = ''~1 in '' @ fmt (Math_pow base targetLength) \<rparr>)"

text \<open>A \<open>formatNumber\<close> for the examples: the digits of an integral number, without
  separators.\<close>

definition formatNumber_plain :: "jsnum \<Rightarrow> string" where
  "formatNumber_plain x =
     (case x of
        Num q \<Rightarrow> string_of_int \<lfloor>q\<rfloor>
      | PosInfinity \<Rightarrow> ''Infinity''
      | NegInfinity \<Rightarrow> ''-Infinity''
      | NaN \<Rightarrow> ''NaN'')"

section \<open>types.ts: messages and results\<close>

text \<open>
  Several interfaces of the source share field names (\<open>address\<close>, \<open>privateKey\<close>,
  \<open>attempts\<close>, \<open>totalAttempts\<close>); the fields of the worker's \<open>data\<close> object carry
  the prefix \<open>d_\<close>, those of \<open>VanityAddressResult\<close> the prefix \<open>r_\<close>, those of
  \<open>PerformanceStats\<close> the prefix \<open>s_\<close>.
\<close>

datatype WorkerResultType = T_found | T_progress | T_error

record WorkerData =
  d_address :: string
  d_privateKey :: string
  d_attempts :: int

record WorkerResult =
  rtype :: WorkerResultType
  data :: "WorkerData option"
  attempts :: "int option"
  error :: "string option"

datatype WorkerMessage = M_start GeneratorConfig | M_stop

record VanityAddressResult =
  r_address :: string
  r_privateKey :: string
  r_attempts :: int
  searchTime :: rat
  searchDescription :: string

section \<open>worker.ts: the worker's loop\<close>

text \<open>
  The loop of the worker script draws a key pair, tests its address and posts a message.
  The key pairs come from \<open>viem\<close>; here they are the elements of a list, in the order
  in which they are drawn, and the loop is followed until the list is used up. An
  exception of the matcher is caught and posted as an \<open>error\<close> message. The loop runs
  inside one message handler, so the \<open>stop\<close> message cannot set \<open>shouldStop\<close> while it
  runs; the second argument is the counter \<open>attempts\<close>.
\<close>

definition PROGRESS_INTERVAL :: int where
  "PROGRESS_INTERVAL = 1000"

text \<open>The three messages that the worker script posts.\<close>

definition found_msg :: "string \<Rightarrow> string \<Rightarrow> int \<Rightarrow> WorkerResult" where
  "found_msg addr priv n =
     \<lparr> rtype = T_found,
       data = Some \<lparr> d_address = addr, d_privateKey = priv, d_attempts = n \<rparr>,
       attempts = None, error = None \<rparr>"

definition progress_msg :: "int \<Rightarrow> WorkerResult" where
  "progress_msg n = \<lparr> rtype = T_progress, data = None, attempts = Some n, error = None \<rparr>"

definition error_msg :: "string \<Rightarrow> WorkerResult" where
  "error_msg msg = \<lparr> rtype = T_error, data = None, attempts = None, error = Some msg \<rparr>"

fun worker_loop :: "GeneratorConfig \<Rightarrow> int \<Rightarrow> (string \<times> string) list \<Rightarrow> WorkerResult list" where
  "worker_loop cfg n [] = []"
| "worker_loop cfg n ((priv, addr) # rest) =
     (case matchesTarget addr (target cfg) (searchMode cfg) (caseSensitive cfg) (position cfg) of
        Inl (Error msg) \<Rightarrow> [error_msg msg]
      | Inr True \<Rightarrow> [found_msg addr priv (n + 1)]
      | Inr False \<Rightarrow>
          (if (n + 1) mod PROGRESS_INTERVAL = 0
           then progress_msg PROGRESS_INTERVAL # worker_loop cfg 0 rest
           else worker_loop cfg (n + 1) rest))"

section \<open>generator.ts\<close>

datatype GeneratorEvent =
    E_progress PerformanceStats
  | E_found VanityAddressResult
  | E_error JsError
  | E_started
  | E_stopped

text \<open>
  What the generator does to the outside, in the order in which it does it: events given
  to the listeners, workers created and terminated, messages posted to workers, the
  reporting timer set and cleared. A worker handle is the loop index at which
  \<open>createWorkers\<close> made it.
\<close>

type_synonym Worker = nat

datatype Effect =
    Emit GeneratorEvent
  | NewWorker Worker
  | PostMessage Worker WorkerMessage
  | Terminate Worker
  | SetInterval
  | ClearInterval

record VanityGenerator =
  config :: GeneratorConfig
  workers :: "Worker list"
  isRunning :: bool
  totalAttempts :: int
  startTime :: int
  lastUpdateTime :: int
  lastUpdateAttempts :: int
  progressInterval :: "unit option"
  effects :: "Effect list"

definition emit :: "GeneratorEvent \<Rightarrow> VanityGenerator \<Rightarrow> VanityGenerator" where
  "emit e s = s\<lparr> effects := effects s @ [Emit e] \<rparr>"

text \<open>\<open>createWorker\<close> and \<open>terminateWorker\<close> of worker.ts, as the effects they have.\<close>

definition createWorker :: "GeneratorConfig \<Rightarrow> Worker \<Rightarrow> Effect list" where
  "createWorker cfg w = [NewWorker w, PostMessage w (M_start cfg)]"

definition terminateWorker :: "Worker \<Rightarrow> Effect list" where
  "terminateWorker w = [PostMessage w M_stop, Terminate w]"

text \<open>The constructor: the configuration is validated, and an invalid one throws.\<close>

definition VanityGenerator_new :: "GeneratorConfig \<Rightarrow> JsError + VanityGenerator" where
  "VanityGenerator_new cfg =
     (let errors = validateConfig cfg
      in if length errors > 0
         then Inl (Error (''Configuration validation failed:'' @ nl @ join errors nl))
         else Inr \<lparr> config = cfg, workers = [], isRunning = False, totalAttempts = 0,
                    startTime = 0, lastUpdateTime = 0, lastUpdateAttempts = 0,
                    progressInterval = None, effects = [] \<rparr>)"

text \<open>The loop \<open>for (let i = 0; i < numWorkers; i++)\<close> of \<open>createWorkers\<close>, from \<open>i\<close> on.\<close>

function createWorkers_from :: "int \<Rightarrow> VanityGenerator \<Rightarrow> VanityGenerator" where
  "createWorkers_from i s =
     (if i < numWorkers (config s)
      then createWorkers_from (i + 1)
             (s\<lparr> effects := effects s @ createWorker (config s) (nat i),
                 workers := workers s @ [nat i] \<rparr>)
      else s)"
  by pat_completeness auto
termination
  by (relation "measure (\<lambda>(i, s). nat (numWorkers (config s) - i))") auto

declare createWorkers_from.simps [simp del]

definition createWorkers :: "VanityGenerator \<Rightarrow> VanityGenerator" where
  "createWorkers s = createWorkers_from 0 s"

definition startProgressUpdates :: "VanityGenerator \<Rightarrow> VanityGenerator" where
  "startProgressUpdates s = s\<lparr> progressInterval := Some (), effects := effects s @ [SetInterval] \<rparr>"

definition stopProgressUpdates :: "VanityGenerator \<Rightarrow> VanityGenerator" where
  "stopProgressUpdates s =
     (case progressInterval s of
        Some t \<Rightarrow> s\<lparr> effects := effects s @ [ClearInterval], progressInterval := None \<rparr>
      | None \<Rightarrow> s)"

definition terminateAllWorkers :: "VanityGenerator \<Rightarrow> VanityGenerator" where
  "terminateAllWorkers s =
     s\<lparr> effects := effects s @ concat (map terminateWorker (workers s)), workers := [] \<rparr>"

text \<open>
  \<open>start\<close> returns nothing or throws; the model returns the thrown error, if any,
  together with the generator after the call. The second argument is \<open>Date.now()\<close>.
\<close>

definition start :: "VanityGenerator \<Rightarrow> int \<Rightarrow> JsError option \<times> VanityGenerator" where
  "start s now =
     (if isRunning s then (Some (Error ''Generator is already running''), s)
      else (None,
            emit E_started
              (startProgressUpdates
                (createWorkers
                  (s\<lparr> isRunning := True, totalAttempts := 0, startTime := now,
                      lastUpdateTime := now, lastUpdateAttempts := 0 \<rparr>)))))"

definition stop :: "VanityGenerator \<Rightarrow> VanityGenerator" where
  "stop s =
     (if \<not> isRunning s then s
      else emit E_stopped (stopProgressUpdates (terminateAllWorkers (s\<lparr> isRunning := False \<rparr>))))"

definition handleFoundResult :: "VanityGenerator \<Rightarrow> WorkerData \<Rightarrow> int \<Rightarrow> VanityGenerator" where
  "handleFoundResult s d now =
     (let s1 = s\<lparr> totalAttempts := totalAttempts s + d_attempts d \<rparr>;
          result = \<lparr> r_address = d_address d,
                     r_privateKey = d_privateKey d,
                     r_attempts = totalAttempts s1,
                     searchTime = of_int (now - startTime s1) / 1000,
                     searchDescription =
                       getSearchDescription (target (config s1)) (searchMode (config s1))
                         (caseSensitive (config s1)) (position (config s1)) \<rparr>
      in emit (E_found result) (stop s1))"

text \<open>A message of a worker arrives; the last argument is \<open>Date.now()\<close> at that moment.\<close>

definition handleWorkerMessage :: "VanityGenerator \<Rightarrow> WorkerResult \<Rightarrow> int \<Rightarrow> VanityGenerator" where
  "handleWorkerMessage s result now =
     (if \<not> isRunning s then s
      else case rtype result of
        T_found \<Rightarrow>
          (case data result of
             Some d \<Rightarrow> handleFoundResult s d now
           | None \<Rightarrow> s)
      | T_progress \<Rightarrow>
          (case attempts result of
             Some a \<Rightarrow> if a \<noteq> 0 then s\<lparr> totalAttempts := totalAttempts s + a \<rparr> else s
           | None \<Rightarrow> s)
      | T_error \<Rightarrow>
          emit (E_error (Error (case error result of
                                  Some msg \<Rightarrow> if msg \<noteq> [] then msg else ''Unknown worker error''
                                | None \<Rightarrow> ''Unknown worker error''))) s)"

definition handleWorkerError :: "VanityGenerator \<Rightarrow> JsError \<Rightarrow> VanityGenerator" where
  "handleWorkerError s e = emit (E_error e) s"

text \<open>The callback of the reporting timer; it reads \<open>Date.now()\<close> twice.\<close>

definition progressTick :: "VanityGenerator \<Rightarrow> int \<Rightarrow> int \<Rightarrow> VanityGenerator" where
  "progressTick s now now' =
     (if isRunning s then
        emit (E_progress (calculatePerformanceStats (totalAttempts s) (startTime s)
                            (lastUpdateTime s) (lastUpdateAttempts s) now))
          (s\<lparr> lastUpdateTime := now', lastUpdateAttempts := totalAttempts s \<rparr>)
      else s)"

definition getStats :: "VanityGenerator \<Rightarrow> int \<Rightarrow> PerformanceStats" where
  "getStats s now =
     calculatePerformanceStats (totalAttempts s) (startTime s) (lastUpdateTime s)
       (lastUpdateAttempts s) now"

definition isGenerating :: "VanityGenerator \<Rightarrow> bool" where
  "isGenerating s = isRunning s"

section \<open>Runs of the generator\<close>

text \<open>
  The generator handles one message at a time. A run is the list of the messages of all
  workers in the order of their arrival, each with the clock reading at its arrival;
  every interleaving of the workers' messages is such a list.
\<close>

fun deliver :: "VanityGenerator \<Rightarrow> (WorkerResult \<times> int) list \<Rightarrow> VanityGenerator" where
  "deliver s [] = s"
| "deliver s ((m, now) # ms) = deliver (handleWorkerMessage s m now) ms"

section \<open>Notions of the specification\<close>

text \<open>The case rule of the matcher, applied to the address body and to the target.\<close>

definition case_rule :: "bool \<Rightarrow> string \<Rightarrow> string" where
  "case_rule caseSens x = (if caseSens then x else toLowerCase x)"

text \<open>The \<open>found\<close> and \<open>stopped\<close> events among the effects.\<close>

fun is_found :: "Effect \<Rightarrow> bool" where
  "is_found (Emit (E_found r)) = True"
| "is_found e = False"

fun is_stopped :: "Effect \<Rightarrow> bool" where
  "is_stopped (Emit E_stopped) = True"
| "is_stopped e = False"

definition found_count :: "Effect list \<Rightarrow> nat" where
  "found_count es = length (filter is_found es)"

definition stopped_count :: "Effect list \<Rightarrow> nat" where
  "stopped_count es = length (filter is_stopped es)"

text \<open>A \<open>Found\<close> event of a worker: a message of type \<open>found\<close> that carries its data.\<close>

definition winning :: "WorkerResult \<Rightarrow> bool" where
  "winning m = (rtype m = T_found \<and> data m \<noteq> None)"

fun some_winning :: "(WorkerResult \<times> int) list \<Rightarrow> bool" where
  "some_winning [] = False"
| "some_winning ((m, now) # ms) = (winning m \<or> some_winning ms)"

text \<open>The attempt delta that a message carries: that of its data for \<open>found\<close>, its
  \<open>attempts\<close> for \<open>progress\<close>, nothing for \<open>error\<close>.\<close>

definition delta :: "WorkerResult \<Rightarrow> int" where
  "delta m =
     (case rtype m of
        T_found \<Rightarrow> (case data m of Some d \<Rightarrow> d_attempts d | None \<Rightarrow> 0)
      | T_progress \<Rightarrow> (case attempts m of Some a \<Rightarrow> a | None \<Rightarrow> 0)
      | T_error \<Rightarrow> 0)"

text \<open>The accepted events of a run that starts on a running generator: all messages up
  to the first \<open>Found\<close> event, and that one.\<close>

fun accepted :: "(WorkerResult \<times> int) list \<Rightarrow> WorkerResult list" where
  "accepted [] = []"
| "accepted ((m, now) # ms) = (if winning m then [m] else m # accepted ms)"

fun nonneg_deltas :: "(WorkerResult \<times> int) list \<Rightarrow> bool" where
  "nonneg_deltas [] = True"
| "nonneg_deltas ((m, now) # ms) = (0 \<le> delta m \<and> nonneg_deltas ms)"

text \<open>The configurations that the specification wants rejected.\<close>

definition invalid_config :: "GeneratorConfig \<Rightarrow> bool" where
  "invalid_config cfg =
     (target cfg = []
      \<or> \<not> allHex (target cfg)
      \<or> length (target cfg) > 40
      \<or> (searchMode cfg = ''position'' \<and>
           (case position cfg of
              None \<Rightarrow> True
            | Some p \<Rightarrow> p < 0 \<or> p > 40 - int (length (target cfg))))
      \<or> numWorkers cfg < 1)"

text \<open>The order that puts the \<open>found\<close> event first: among the effects, the \<open>found\<close>
  event comes before anything that \<open>stop\<close> does.\<close>

fun is_teardown :: "Effect \<Rightarrow> bool" where
  "is_teardown (Emit E_stopped) = True"
| "is_teardown (Terminate w) = True"
| "is_teardown (PostMessage w M_stop) = True"
| "is_teardown ClearInterval = True"
| "is_teardown e = False"

fun found_before_stop :: "Effect list \<Rightarrow> bool" where
  "found_before_stop [] = False"
| "found_before_stop (e # es) =
     (if is_found e then True else if is_teardown e then False else found_before_stop es)"

section \<open>An example search\<close>

text \<open>A search for addresses that start with \<open>ab\<close>, with two workers: the generator as
  the constructor makes it, and as \<open>start\<close> leaves it at time 0.\<close>

definition example_config :: GeneratorConfig where
  "example_config =
     \<lparr> target = ''ab'', searchMode = ''start'', position = None, caseSensitive = False,
       numWorkers = 2 \<rparr>"

definition example_idle :: VanityGenerator where
  "example_idle =
     \<lparr> config = example_config, workers = [], isRunning = False, totalAttempts = 0,
       startTime = 0, lastUpdateTime = 0, lastUpdateAttempts = 0, progressInterval = None,
       effects = [] \<rparr>"

definition example_running :: VanityGenerator where
  "example_running =
     \<lparr> config = example_config, workers = [0, 1], isRunning = True, totalAttempts = 0,
       startTime = 0, lastUpdateTime = 0, lastUpdateAttempts = 0, progressInterval = Some (),
       effects = [NewWorker 0, PostMessage 0 (M_start example_config),
                  NewWorker 1, PostMessage 1 (M_start example_config),
                  SetInterval, Emit E_started] \<rparr>"

section \<open>The matcher\<close>

lemma slice_from: "0 \<le> i \<Longrightarrow> slice s i None = drop (nat i) s"
  by (auto simp: slice_def slice_index_def Let_def min_def)

lemma slice_nonneg:
  assumes "0 \<le> p"
  shows "slice s p (Some (p + int n)) = take n (drop (nat p) s)"
proof (cases "nat p < length s")
  case True
  with assms show ?thesis
    by (cases "n = 0") (auto simp: slice_def slice_index_def Let_def min_def nat_add_distrib)
next
  case False
  with assms show ?thesis
    by (auto simp: slice_def slice_index_def Let_def min_def nat_add_distrib)
qed

lemma startsWith_prefix: "startsWith s t = prefix t s"
  unfolding startsWith_def
  by (metis append_eq_conv_conj prefix_def prefix_length_le take_is_prefix)

lemma endsWith_suffix: "endsWith s t = suffix t s"
  unfolding endsWith_def
  by (metis suffix_drop suffix_length_le append_eq_conv_conj length_append
        add_diff_cancel_right' suffix_def)

lemma includes_sublist: "includes_str s t = sublist t s"
  by (induction s) (auto simp: startsWith_prefix sublist_Cons_right)

lemma length_toLowerCase: "length (toLowerCase s) = length s"
  by (simp add: toLowerCase_def)

lemma length_case_rule: "length (case_rule c s) = length s"
  by (simp add: case_rule_def length_toLowerCase)

lemma toLowerCase_examples:
  "toLowerCase ''dEaD'' = ''dead''"
  "toLowerCase ''Beef'' = ''beef''"
  "toLowerCase ''adbe'' = ''adbe''"
  "toLowerCase ''DEADbeef'' = ''deadbeef''"
  by (simp_all add: toLowerCase_def toLowerCase_char_def)

text \<open>
  C1: without case sensitivity the matcher works on the address without its first two
  characters; mode \<open>start\<close> is true iff the lower-cased body begins with the lower-cased
  target, mode \<open>end\<close> iff it ends with it, mode \<open>anywhere\<close> iff the lower-cased target
  is a contiguous part of the lower-cased body.
\<close>

theorem matcher_case_insensitive:
  "matchesTarget address tgt ''start'' False pos =
     Inr (prefix (toLowerCase tgt) (toLowerCase (drop 2 address)))
   \<and> matchesTarget address tgt ''end'' False pos =
     Inr (suffix (toLowerCase tgt) (toLowerCase (drop 2 address)))
   \<and> matchesTarget address tgt ''anywhere'' False pos =
     Inr (sublist (toLowerCase tgt) (toLowerCase (drop 2 address)))"
  by (simp add: matchesTarget_def slice_from startsWith_prefix endsWith_suffix includes_sublist)

theorem matcher_case_insensitive_witness:
  "matchesTarget ''0xDEADbeef'' ''dEaD'' ''start'' False None = Inr True
   \<and> matchesTarget ''0xDEADbeef'' ''dEaD'' ''end'' False None = Inr False
   \<and> matchesTarget ''0xDEADbeef'' ''dEaD'' ''anywhere'' False None = Inr True"
proof -
  have "prefix ''dead'' ''deadbeef''" "\<not> suffix ''dead'' ''deadbeef''" "sublist ''dead'' ''deadbeef''"
    by (simp_all add: suffix_def sublist_code)
  then show ?thesis
    using matcher_case_insensitive [of "''0xDEADbeef''" "''dEaD''" None]
    by (simp add: toLowerCase_examples)
qed

text \<open>
  The configurations that reach the matcher have passed the validation of the
  constructor: their target is not empty, and in mode \<open>position\<close> their position is
  defined and not negative.
\<close>

lemma valid_position_config:
  assumes "\<not> invalid_config cfg" "searchMode cfg = ''position''"
  shows "target cfg \<noteq> []"
    and "\<exists>p. position cfg = Some p \<and> 0 \<le> p \<and> p \<le> 40 - int (length (target cfg))"
  using assms by (auto simp: invalid_config_def split: option.splits)

text \<open>
  C4: in mode \<open>position\<close> the matcher answers false when the position is undefined;
  for a position \<open>p\<close> (an unsigned integer) it answers true iff the part of the body
  that starts at \<open>p\<close> and has the target's length equals the target, under the case
  rule; and for a target that is not empty it answers false when the position is out
  of bounds, that is when \<open>p\<close> plus the target's length goes beyond the body.
\<close>

theorem matcher_position:
  "matchesTarget address tgt ''position'' cs None = Inr False
   \<and> (0 \<le> p \<longrightarrow>
        matchesTarget address tgt ''position'' cs (Some p) =
          Inr (take (length tgt) (drop (nat p) (case_rule cs (drop 2 address)))
                 = case_rule cs tgt))
   \<and> (0 \<le> p \<and> tgt \<noteq> [] \<and> length (drop 2 address) < nat p + length tgt \<longrightarrow>
        matchesTarget address tgt ''position'' cs (Some p) = Inr False)"
proof -
  have a: "matchesTarget address tgt ''position'' cs None = Inr False"
    by (simp add: matchesTarget_def)
  have b: "matchesTarget address tgt ''position'' cs (Some p) =
          Inr (take (length tgt) (drop (nat p) (case_rule cs (drop 2 address)))
                 = case_rule cs tgt)"
    if "0 \<le> p"
    using that
    by (simp add: matchesTarget_def slice_from slice_nonneg case_rule_def length_toLowerCase)
  have c: "take (length tgt) (drop (nat p) (case_rule cs (drop 2 address))) \<noteq> case_rule cs tgt"
    if "tgt \<noteq> []" "length (drop 2 address) < nat p + length tgt"
  proof
    assume e: "take (length tgt) (drop (nat p) (case_rule cs (drop 2 address))) = case_rule cs tgt"
    have "length (take (length tgt) (drop (nat p) (case_rule cs (drop 2 address)))) < length tgt"
      using that by (cases tgt) (auto simp: length_case_rule min_def)
    with e show False by (simp add: length_case_rule)
  qed
  from a b c show ?thesis by auto
qed

theorem matcher_position_witness:
  "matchesTarget ''0xDEADbeef'' ''adbe'' ''position'' False None = Inr False
   \<and> (0::int) \<le> 2
   \<and> matchesTarget ''0xDEADbeef'' ''adbe'' ''position'' False (Some 2) = Inr True
   \<and> (0::int) \<le> 6 \<and> ''adbe'' \<noteq> [] \<and> length (drop 2 ''0xDEADbeef'') < nat 6 + length ''adbe''
   \<and> matchesTarget ''0xDEADbeef'' ''adbe'' ''position'' False (Some 6) = Inr False"
  using matcher_position [of "''0xDEADbeef''" "''adbe''" False 2]
    matcher_position [of "''0xDEADbeef''" "''adbe''" False 6]
  by (simp add: case_rule_def toLowerCase_examples)

section \<open>The difficulty estimate\<close>

lemma pow16_small:
  assumes "n \<le> 255"
  shows "(16::rat) ^ n < 2 ^ 1024"
proof -
  have "(16::rat) ^ n = 2 ^ (4 * n)"
    by (simp add: power_mult)
  also have "\<dots> < 2 ^ 1024"
    using assms by (intro power_strict_increasing) simp_all
  finally show ?thesis .
qed

lemma pow16_large:
  assumes "255 < n"
  shows "\<not> (16::rat) ^ n < 2 ^ 1024"
proof -
  have "(2::rat) ^ 1024 \<le> 2 ^ (4 * n)"
    using assms by (intro power_increasing) simp_all
  also have "\<dots> = 16 ^ n"
    by (simp add: power_mult)
  finally show ?thesis by simp
qed

lemma Math_pow_16: "Math_pow 16 n = (if n \<le> 255 then Num (16 ^ n) else PosInfinity)"
proof (cases "n \<le> 255")
  case True
  then have "(16::rat) ^ n < 2 ^ 1024" by (rule pow16_small)
  with True show ?thesis by (simp only: Math_pow_def if_True)
next
  case False
  then have "\<not> (16::rat) ^ n < 2 ^ 1024" by (intro pow16_large) simp
  with False show ?thesis by (simp only: Math_pow_def if_False)
qed

text \<open>
  C9, as the program has it: for mode \<open>start\<close> without case sensitivity the estimated
  difficulty of a target of length \<open>L\<close> is \<open>16 ^ L\<close> as long as \<open>L\<close> is at most 255,
  and \<open>Infinity\<close> for every longer target; for the target \<open>dead\<close> it is 65536.
\<close>

theorem estimate_start_bounded:
  "(length tgt \<le> 255 \<longrightarrow>
      difficulty (estimateDifficulty fmt tgt ''start'' False) = Num (16 ^ length tgt))
   \<and> (255 < length tgt \<longrightarrow>
        difficulty (estimateDifficulty fmt tgt ''start'' False) = PosInfinity)
   \<and> difficulty (estimateDifficulty fmt ''dead'' ''start'' False) = Num 65536"
  by (simp add: estimateDifficulty_def Let_def Math_pow_16)

theorem estimate_start_bounded_witness:
  "length ''deadbeef'' \<le> 255
   \<and> difficulty (estimateDifficulty formatNumber_plain ''deadbeef'' ''start'' False)
       = Num 4294967296
   \<and> 255 < length (replicate 300 (CHR ''a''))
   \<and> difficulty (estimateDifficulty formatNumber_plain (replicate 300 (CHR ''a'')) ''start'' False)
       = PosInfinity"
  using estimate_start_bounded [of "''deadbeef''" formatNumber_plain]
    estimate_start_bounded [of "replicate 300 (CHR ''a'')" formatNumber_plain]
  by simp

text \<open>
  C9 as stated fails for a target of 256 characters, which the \<open>estimate\<close> command
  accepts: \<open>16 ^ 256\<close> is \<open>2 ^ 1024\<close>, beyond every double, and the estimate is
  \<open>Infinity\<close>.
\<close>

theorem estimate_start_overflow:
  "difficulty (estimateDifficulty formatNumber_plain (replicate 256 (CHR ''a'')) ''start'' False)
     = PosInfinity
   \<and> difficulty (estimateDifficulty formatNumber_plain (replicate 256 (CHR ''a'')) ''start'' False)
     \<noteq> Num (16 ^ length (replicate 256 (CHR ''a'')))"
  by (simp add: estimateDifficulty_def Let_def Math_pow_16)

text \<open>
  C10: the estimate does not depend on \<open>caseSensitive\<close>: difficulty and description are
  the same for both values, for every target and every mode.
\<close>

theorem estimate_ignores_case:
  "estimateDifficulty fmt tgt mode True = estimateDifficulty fmt tgt mode False"
  by (simp add: estimateDifficulty_def)

section \<open>Validation of the configuration\<close>

lemma validateConfig_invalid: "(validateConfig cfg \<noteq> []) = invalid_config cfg"
  by (auto simp: validateConfig_def invalid_config_def validateTarget_def validatePosition_def
        split: option.splits)

text \<open>
  C5: the constructor throws, with the messages of the validation, for an empty target, a
  target with a character that is not a hexadecimal digit, a target longer than 40, mode
  \<open>position\<close> without a position or with one outside \<open>[0, 40 - length target]\<close>, and a
  worker count below 1. Then there is no generator, hence no worker. Every other
  configuration gives an idle generator without workers and without effects.
\<close>

theorem config_rejection:
  "(invalid_config cfg \<longrightarrow>
      validateConfig cfg \<noteq> []
      \<and> VanityGenerator_new cfg =
          Inl (Error (''Configuration validation failed:'' @ nl @ join (validateConfig cfg) nl)))
   \<and> (\<not> invalid_config cfg \<longrightarrow>
        VanityGenerator_new cfg =
          Inr \<lparr> config = cfg, workers = [], isRunning = False, totalAttempts = 0,
                startTime = 0, lastUpdateTime = 0, lastUpdateAttempts = 0,
                progressInterval = None, effects = [] \<rparr>)"
  using validateConfig_invalid [of cfg] by (simp add: VanityGenerator_new_def Let_def)

theorem config_rejection_witness:
  "invalid_config (example_config\<lparr> target := ''zz'' \<rparr>)
   \<and> VanityGenerator_new (example_config\<lparr> target := ''zz'' \<rparr>) =
       Inl (Error (''Configuration validation failed:'' @ nl
              @ ''Target must contain only hexadecimal characters (0-9, a-f, A-F)''))
   \<and> invalid_config (example_config\<lparr> target := replicate 41 (CHR ''a'') \<rparr>)
   \<and> invalid_config (example_config\<lparr> searchMode := ''position'' \<rparr>)
   \<and> invalid_config
       (example_config\<lparr> target := ''dead'', searchMode := ''position'', position := Some 38 \<rparr>)
   \<and> invalid_config (example_config\<lparr> numWorkers := 0 \<rparr>)
   \<and> \<not> invalid_config example_config
   \<and> VanityGenerator_new example_config = Inr example_idle"
proof -
  have i: "invalid_config (example_config\<lparr> target := ''zz'' \<rparr>)"
    by (simp add: invalid_config_def example_config_def isHexChar_def)
  have v: "validateConfig (example_config\<lparr> target := ''zz'' \<rparr>) =
             [''Target must contain only hexadecimal characters (0-9, a-f, A-F)'']"
    by (simp add: validateConfig_def validateTarget_def example_config_def isHexChar_def)
  have n: "\<not> invalid_config example_config"
    by (simp add: invalid_config_def example_config_def isHexChar_def)
  have o: "invalid_config (example_config\<lparr> target := replicate 41 (CHR ''a'') \<rparr>)"
    "invalid_config (example_config\<lparr> searchMode := ''position'' \<rparr>)"
    "invalid_config
       (example_config\<lparr> target := ''dead'', searchMode := ''position'', position := Some 38 \<rparr>)"
    "invalid_config (example_config\<lparr> numWorkers := 0 \<rparr>)"
    by (simp_all add: invalid_config_def example_config_def)
  show ?thesis
    using i n o config_rejection [of "example_config\<lparr> target := ''zz'' \<rparr>"]
      config_rejection [of example_config]
    by (simp add: v example_idle_def)
qed

section \<open>The generator\<close>

lemma stop_idle: "\<not> isRunning s \<Longrightarrow> stop s = s"
  by (simp add: stop_def)

lemma stop_running:
  "isRunning s \<Longrightarrow>
   stop s = s\<lparr> isRunning := False, workers := [], progressInterval := None,
              effects := effects s @ concat (map terminateWorker (workers s))
                @ (case progressInterval s of None \<Rightarrow> [] | Some t \<Rightarrow> [ClearInterval])
                @ [Emit E_stopped] \<rparr>"
  by (cases "progressInterval s")
     (simp_all add: stop_def emit_def stopProgressUpdates_def terminateAllWorkers_def)

lemma isRunning_stop: "\<not> isRunning (stop s)"
  by (cases "isRunning s") (simp_all add: stop_running stop_idle)

text \<open>
  C7: \<open>stop\<close> on a generator that is not running changes nothing; on a running one it
  tears the workers down, cancels the reporting and emits \<open>stopped\<close>; a second \<open>stop\<close>
  right after the first changes nothing, so all of this happens on the first call only.
\<close>

theorem stop_idempotent:
  "stop (stop s) = stop s
   \<and> effects (stop (stop s)) = effects (stop s)
   \<and> (\<not> isRunning s \<longrightarrow> stop s = s)
   \<and> (isRunning s \<longrightarrow>
        effects (stop s) = effects s @ concat (map terminateWorker (workers s))
          @ (case progressInterval s of None \<Rightarrow> [] | Some t \<Rightarrow> [ClearInterval])
          @ [Emit E_stopped])"
  by (simp add: stop_idle isRunning_stop stop_running)

theorem stop_idempotent_witness:
  "isRunning example_running
   \<and> effects (stop example_running) =
       effects example_running
       @ [PostMessage 0 M_stop, Terminate 0, PostMessage 1 M_stop, Terminate 1,
          ClearInterval, Emit E_stopped]
   \<and> stop (stop example_running) = stop example_running
   \<and> \<not> isRunning example_idle
   \<and> stop example_idle = example_idle"
  using stop_idempotent [of example_running] stop_idempotent [of example_idle]
  by (simp add: example_running_def example_idle_def terminateWorker_def)

lemma createWorkers_from_eq:
  "0 \<le> i \<Longrightarrow>
   createWorkers_from i s =
     s\<lparr> effects := effects s
          @ concat (map (createWorker (config s)) [nat i..<nat (numWorkers (config s))]),
        workers := workers s @ [nat i..<nat (numWorkers (config s))] \<rparr>"
proof (induction i s rule: createWorkers_from.induct)
  case (1 i s)
  show ?case
  proof (cases "i < numWorkers (config s)")
    case True
    with "1.prems" have lt: "nat i < nat (numWorkers (config s))" by simp
    have nx: "nat (i + 1) = Suc (nat i)" using "1.prems" by simp
    from True "1.prems" "1.IH" show ?thesis
      by (subst createWorkers_from.simps) (simp add: upt_conv_Cons [OF lt] nx)
  next
    case False
    with "1.prems" show ?thesis
      by (subst createWorkers_from.simps) simp
  qed
qed

text \<open>
  C8: \<open>start\<close> on a running generator throws and leaves the generator as it is; on a
  generator that is not running it sets the running flag, resets the counters, records
  the time, creates \<open>numWorkers\<close> workers (each is sent the configuration), sets the
  reporting timer and emits \<open>started\<close>, in this order.
\<close>

theorem start_contract:
  "(isRunning s \<longrightarrow> start s now = (Some (Error ''Generator is already running''), s))
   \<and> (\<not> isRunning s \<longrightarrow>
        start s now =
          (None,
           s\<lparr> isRunning := True, totalAttempts := 0, startTime := now, lastUpdateTime := now,
              lastUpdateAttempts := 0,
              workers := workers s @ [0..<nat (numWorkers (config s))],
              progressInterval := Some (),
              effects := effects s
                @ concat (map (createWorker (config s)) [0..<nat (numWorkers (config s))])
                @ [SetInterval, Emit E_started] \<rparr>))"
  by (simp add: start_def createWorkers_def createWorkers_from_eq startProgressUpdates_def emit_def)

lemma upt_2: "[0..<2] = [0, Suc 0]"
  by (simp add: upt_conv_Cons)

theorem start_contract_witness:
  "isRunning example_running
   \<and> start example_running 5 = (Some (Error ''Generator is already running''), example_running)
   \<and> \<not> isRunning example_idle
   \<and> start example_idle 0 = (None, example_running)"
  using start_contract [of example_running 5] start_contract [of example_idle 0]
  by (simp add: example_running_def example_idle_def example_config_def createWorker_def upt_2)

lemma handleFoundResult_eq:
  "isRunning s \<Longrightarrow>
   handleFoundResult s d now =
     s\<lparr> totalAttempts := totalAttempts s + d_attempts d,
        isRunning := False, workers := [], progressInterval := None,
        effects := effects s @ concat (map terminateWorker (workers s))
          @ (case progressInterval s of None \<Rightarrow> [] | Some t \<Rightarrow> [ClearInterval])
          @ [Emit E_stopped,
             Emit (E_found \<lparr> r_address = d_address d, r_privateKey = d_privateKey d,
                            r_attempts = totalAttempts s + d_attempts d,
                            searchTime = of_int (now - startTime s) / 1000,
                            searchDescription =
                              getSearchDescription (target (config s)) (searchMode (config s))
                                (caseSensitive (config s)) (position (config s)) \<rparr>)] \<rparr>"
  by (simp add: handleFoundResult_def Let_def stop_running emit_def)

lemma found_count_append: "found_count (xs @ ys) = found_count xs + found_count ys"
  by (simp add: found_count_def)

lemma stopped_count_append: "stopped_count (xs @ ys) = stopped_count xs + stopped_count ys"
  by (simp add: stopped_count_def)

lemma found_count_teardown: "found_count (concat (map terminateWorker ws)) = 0"
  by (induction ws) (simp_all add: found_count_def terminateWorker_def)

lemma stopped_count_teardown: "stopped_count (concat (map terminateWorker ws)) = 0"
  by (induction ws) (simp_all add: stopped_count_def terminateWorker_def)

text \<open>
  C6, as the program has it: when a winning \<open>Found\<close> event is accepted, the generator
  first runs \<open>stop\<close> (the workers are torn down, the reporting timer is cleared,
  \<open>stopped\<close> is emitted) and then emits \<open>found\<close>, once, with the updated attempt
  count; after that it is not running and has no workers.
\<close>

theorem found_after_stop:
  "isRunning s \<longrightarrow>
     effects (handleFoundResult s d now) =
       effects s @ concat (map terminateWorker (workers s))
       @ (case progressInterval s of None \<Rightarrow> [] | Some t \<Rightarrow> [ClearInterval])
       @ [Emit E_stopped,
          Emit (E_found \<lparr> r_address = d_address d, r_privateKey = d_privateKey d,
                         r_attempts = totalAttempts s + d_attempts d,
                         searchTime = of_int (now - startTime s) / 1000,
                         searchDescription =
                           getSearchDescription (target (config s)) (searchMode (config s))
                             (caseSensitive (config s)) (position (config s)) \<rparr>)]
     \<and> found_count (effects (handleFoundResult s d now)) = found_count (effects s) + 1
     \<and> \<not> isRunning (handleFoundResult s d now)
     \<and> workers (handleFoundResult s d now) = []"
proof
  assume r: "isRunning s"
  have "found_count (case progressInterval s of None \<Rightarrow> [] | Some t \<Rightarrow> [ClearInterval]) = 0"
    by (simp add: found_count_def split: option.splits)
  then show "effects (handleFoundResult s d now) =
       effects s @ concat (map terminateWorker (workers s))
       @ (case progressInterval s of None \<Rightarrow> [] | Some t \<Rightarrow> [ClearInterval])
       @ [Emit E_stopped,
          Emit (E_found \<lparr> r_address = d_address d, r_privateKey = d_privateKey d,
                         r_attempts = totalAttempts s + d_attempts d,
                         searchTime = of_int (now - startTime s) / 1000,
                         searchDescription =
                           getSearchDescription (target (config s)) (searchMode (config s))
                             (caseSensitive (config s)) (position (config s)) \<rparr>)]
     \<and> found_count (effects (handleFoundResult s d now)) = found_count (effects s) + 1
     \<and> \<not> isRunning (handleFoundResult s d now)
     \<and> workers (handleFoundResult s d now) = []"
    by (simp add: handleFoundResult_eq [OF r] found_count_append found_count_teardown)
       (simp add: found_count_def)
qed

lemma description_example:
  "getSearchDescription ''ab'' ''start'' False None =
     ''starting with '' @ dq @ ''ab'' @ dq @ '' (case-insensitive)''"
  by (simp add: getSearchDescription_def)

theorem found_after_stop_witness:
  "isRunning example_running
   \<and> effects (handleFoundResult example_running
               \<lparr> d_address = ''0xab34'', d_privateKey = ''0x01'', d_attempts = 2 \<rparr> 3000) =
       effects example_running
       @ [PostMessage 0 M_stop, Terminate 0, PostMessage 1 M_stop, Terminate 1, ClearInterval,
          Emit E_stopped,
          Emit (E_found \<lparr> r_address = ''0xab34'', r_privateKey = ''0x01'', r_attempts = 2,
                         searchTime = 3,
                         searchDescription =
                           ''starting with '' @ dq @ ''ab'' @ dq @ '' (case-insensitive)'' \<rparr>)]"
  using found_after_stop
    [of example_running "\<lparr> d_address = ''0xab34'', d_privateKey = ''0x01'', d_attempts = 2 \<rparr>" 3000]
  by (simp add: example_running_def example_config_def terminateWorker_def description_example)

text \<open>
  C6 as stated puts the \<open>found\<close> event before the effects of \<open>stop\<close>. In the example
  search the effects of handling a \<open>Found\<close> event begin with the teardown of worker 0.
\<close>

theorem found_not_before_stop:
  "\<not> found_before_stop
       (drop (length (effects example_running))
          (effects (handleWorkerMessage example_running (found_msg ''0xab34'' ''0x01'' 2) 3000)))"
  by (simp add: handleWorkerMessage_def found_msg_def handleFoundResult_def stop_def emit_def
        stopProgressUpdates_def terminateAllWorkers_def terminateWorker_def example_running_def
        Let_def)

section \<open>Runs: messages of several workers\<close>

lemma handle_idle: "\<not> isRunning s \<Longrightarrow> handleWorkerMessage s m now = s"
  by (simp add: handleWorkerMessage_def)

lemma handle_winning:
  "isRunning s \<Longrightarrow> winning m \<Longrightarrow>
   handleWorkerMessage s m now = handleFoundResult s (the (data m)) now"
  by (auto simp: handleWorkerMessage_def winning_def)

lemma handle_other:
  assumes "isRunning s" "\<not> winning m"
  shows "isRunning (handleWorkerMessage s m now)"
    and "found_count (effects (handleWorkerMessage s m now)) = found_count (effects s)"
    and "stopped_count (effects (handleWorkerMessage s m now)) = stopped_count (effects s)"
    and "totalAttempts (handleWorkerMessage s m now) = totalAttempts s + delta m"
  using assms
  by (auto simp: handleWorkerMessage_def winning_def emit_def found_count_def stopped_count_def
        delta_def split: WorkerResultType.splits option.splits)

lemma handle_winning_props:
  assumes "isRunning s" "winning m"
  shows "\<not> isRunning (handleWorkerMessage s m now)"
    and "found_count (effects (handleWorkerMessage s m now)) = found_count (effects s) + 1"
    and "stopped_count (effects (handleWorkerMessage s m now)) = stopped_count (effects s) + 1"
    and "totalAttempts (handleWorkerMessage s m now) = totalAttempts s + delta m"
proof -
  note e = handle_winning [OF assms] handleFoundResult_eq [OF assms(1)]
  show "\<not> isRunning (handleWorkerMessage s m now)" by (simp add: e)
  show "found_count (effects (handleWorkerMessage s m now)) = found_count (effects s) + 1"
    by (simp add: e found_count_append found_count_teardown)
       (simp add: found_count_def split: option.splits)
  show "stopped_count (effects (handleWorkerMessage s m now)) = stopped_count (effects s) + 1"
    by (simp add: e stopped_count_append stopped_count_teardown)
       (simp add: stopped_count_def split: option.splits)
  show "totalAttempts (handleWorkerMessage s m now) = totalAttempts s + delta m"
    using assms(2) by (auto simp: e delta_def winning_def)
qed

lemma deliver_idle: "\<not> isRunning s \<Longrightarrow> deliver s ms = s"
  by (induction ms arbitrary: s) (auto simp: handle_idle)

lemma deliver_append: "deliver s (ms @ ms') = deliver (deliver s ms) ms'"
  by (induction ms arbitrary: s) auto

lemma deliver_no_winner:
  "isRunning s \<Longrightarrow> \<not> some_winning ms \<Longrightarrow>
   isRunning (deliver s ms)
   \<and> found_count (effects (deliver s ms)) = found_count (effects s)
   \<and> stopped_count (effects (deliver s ms)) = stopped_count (effects s)"
  by (induction ms arbitrary: s) (auto simp: handle_other)

lemma deliver_winner:
  "isRunning s \<Longrightarrow> some_winning ms \<Longrightarrow>
   \<not> isRunning (deliver s ms)
   \<and> found_count (effects (deliver s ms)) = found_count (effects s) + 1
   \<and> stopped_count (effects (deliver s ms)) = stopped_count (effects s) + 1"
proof (induction ms arbitrary: s)
  case Nil
  then show ?case by simp
next
  case (Cons x ms)
  obtain m now where x: "x = (m, now)" by (cases x)
  show ?case
  proof (cases "winning m")
    case True
    with Cons.prems(1) show ?thesis
      by (simp add: x deliver_idle handle_winning_props)
  next
    case False
    with Cons.prems have "some_winning ms" by (simp add: x)
    with Cons.IH [of "handleWorkerMessage s m now"] Cons.prems(1) False show ?thesis
      by (simp add: x handle_other)
  qed
qed

text \<open>
  C2: on a running generator, whatever the order in which the messages of the workers
  arrive, a run with at least one \<open>Found\<close> event emits \<open>found\<close> exactly once and runs
  \<open>stop\<close> exactly once, and a run without one emits no \<open>found\<close>. Once a \<open>Found\<close>
  event is accepted the generator is not running, and no later message changes it.
\<close>

theorem one_found_event:
  "isRunning s \<longrightarrow>
     (some_winning ms \<longrightarrow>
        found_count (effects (deliver s ms)) = found_count (effects s) + 1
        \<and> stopped_count (effects (deliver s ms)) = stopped_count (effects s) + 1
        \<and> \<not> isRunning (deliver s ms))
     \<and> (\<not> some_winning ms \<longrightarrow> found_count (effects (deliver s ms)) = found_count (effects s))
     \<and> (winning m \<longrightarrow>
          \<not> isRunning (handleWorkerMessage s m now)
          \<and> deliver (handleWorkerMessage s m now) ms = handleWorkerMessage s m now)"
  by (auto simp: deliver_winner deliver_no_winner handle_winning_props deliver_idle)

lemma found_count_example: "found_count (effects example_running) = 0"
  by (simp add: example_running_def found_count_def)

lemma stopped_count_example: "stopped_count (effects example_running) = 0"
  by (simp add: example_running_def stopped_count_def)

theorem one_found_event_witness:
  "isRunning example_running
   \<and> some_winning [(found_msg ''0xab34'' ''0x01'' 2, 3000), (progress_msg 1000, 3001),
                    (found_msg ''0xabcd'' ''0x02'' 7, 3002)]
   \<and> found_count (effects (deliver example_running
         [(found_msg ''0xab34'' ''0x01'' 2, 3000), (progress_msg 1000, 3001),
          (found_msg ''0xabcd'' ''0x02'' 7, 3002)])) = 1
   \<and> stopped_count (effects (deliver example_running
         [(found_msg ''0xab34'' ''0x01'' 2, 3000), (progress_msg 1000, 3001),
          (found_msg ''0xabcd'' ''0x02'' 7, 3002)])) = 1
   \<and> \<not> some_winning [(progress_msg 1000, 10), (error_msg ''boom'', 11)]
   \<and> found_count (effects (deliver example_running
         [(progress_msg 1000, 10), (error_msg ''boom'', 11)])) = 0
   \<and> winning (found_msg ''0xab34'' ''0x01'' 2)
   \<and> deliver (handleWorkerMessage example_running (found_msg ''0xab34'' ''0x01'' 2) 3000)
         [(progress_msg 1000, 10), (error_msg ''boom'', 11)]
       = handleWorkerMessage example_running (found_msg ''0xab34'' ''0x01'' 2) 3000"
proof -
  have r: "isRunning example_running"
    by (simp add: example_running_def)
  have w: "winning (found_msg ''0xab34'' ''0x01'' 2)"
    "\<not> winning (progress_msg 1000)" "\<not> winning (error_msg ''boom'')"
    by (simp_all add: winning_def found_msg_def progress_msg_def error_msg_def)
  show ?thesis
    using r w
      one_found_event [of example_running
        "[(found_msg ''0xab34'' ''0x01'' 2, 3000), (progress_msg 1000, 3001),
          (found_msg ''0xabcd'' ''0x02'' 7, 3002)]"
        "found_msg ''0xab34'' ''0x01'' 2" 3000]
      one_found_event [of example_running
        "[(progress_msg 1000, 10), (error_msg ''boom'', 11)]"
        "found_msg ''0xab34'' ''0x01'' 2" 3000]
    by (simp add: found_count_example stopped_count_example)
qed

lemma accepted_no_winner: "\<not> some_winning ms \<Longrightarrow> accepted ms = map fst ms"
  by (induction ms) auto

lemma some_winning_set: "some_winning ms = (\<exists>x \<in> set ms. winning (fst x))"
  by (induction ms) auto

lemma sum_accepted_nonneg: "nonneg_deltas ms \<Longrightarrow> 0 \<le> sum_list (map delta (accepted ms))"
  by (induction ms) auto

lemma deliver_total:
  "isRunning s \<Longrightarrow>
   totalAttempts (deliver s ms) = totalAttempts s + sum_list (map delta (accepted ms))"
proof (induction ms arbitrary: s)
  case Nil
  then show ?case by simp
next
  case (Cons x ms)
  obtain m now where x: "x = (m, now)" by (cases x)
  show ?case
  proof (cases "winning m")
    case True
    with Cons.prems show ?thesis
      by (simp add: x deliver_idle handle_winning_props)
  next
    case False
    with Cons.IH [of "handleWorkerMessage s m now"] Cons.prems show ?thesis
      by (simp add: x handle_other)
  qed
qed

lemma deliver_mono:
  assumes "nonneg_deltas ms'"
  shows "totalAttempts (deliver s ms) \<le> totalAttempts (deliver s (ms @ ms'))"
proof (cases "isRunning (deliver s ms)")
  case True
  then show ?thesis
    using sum_accepted_nonneg [OF assms] by (simp add: deliver_append deliver_total)
next
  case False
  then show ?thesis by (simp add: deliver_append deliver_idle)
qed

lemma deliver_perm:
  assumes "isRunning s" "\<not> some_winning ms" "mset ms' = mset ms"
  shows "totalAttempts (deliver s ms') = totalAttempts (deliver s ms)"
proof -
  have "set ms' = set ms" using assms(3) by (rule mset_eq_setD)
  with assms(2) have nw: "\<not> some_winning ms'" by (simp add: some_winning_set)
  have "sum_list (map (delta \<circ> fst) ms') = sum_mset (image_mset (delta \<circ> fst) (mset ms'))"
    by (metis mset_map sum_mset_sum_list)
  also have "\<dots> = sum_list (map (delta \<circ> fst) ms)"
    by (metis assms(3) mset_map sum_mset_sum_list)
  finally show ?thesis
    using assms(1,2) nw by (simp add: deliver_total accepted_no_winner)
qed

lemma totalAttempts_kept:
  "totalAttempts (stop s) = totalAttempts s"
  "totalAttempts (progressTick s t t') = totalAttempts s"
  "totalAttempts (handleWorkerError s e) = totalAttempts s"
  by (cases "isRunning s"; simp add: stop_running stop_idle progressTick_def emit_def
        handleWorkerError_def)+

text \<open>The worker script posts attempt counts that are not negative.\<close>

lemma worker_loop_deltas:
  "0 \<le> n \<Longrightarrow> m \<in> set (worker_loop cfg n cs) \<Longrightarrow> 0 \<le> delta m"
proof (induction cfg n cs rule: worker_loop.induct)
  case (1 cfg n)
  then show ?case by simp
next
  case (2 cfg n priv addr rest)
  then show ?case
    by (auto simp: delta_def PROGRESS_INTERVAL_def found_msg_def progress_msg_def error_msg_def
          split: sum.splits JsError.splits bool.splits if_splits)
qed

text \<open>
  C3: on a running generator the attempt counter after a run, which is what \<open>getStats\<close>
  reports, is the counter before it plus the sum of the deltas of the accepted events;
  with deltas that are not negative it never decreases along a run; it does not depend
  on the order in which \<open>Progress\<close> events arrive; and neither \<open>stop\<close>, nor the
  reporting timer, nor an error of a worker changes it.
\<close>

theorem attempt_accounting:
  "(isRunning s \<longrightarrow>
      totalAttempts (deliver s ms) = totalAttempts s + sum_list (map delta (accepted ms))
      \<and> s_totalAttempts (getStats (deliver s ms) now) =
          totalAttempts s + sum_list (map delta (accepted ms))
      \<and> (\<not> some_winning ms \<and> mset ms' = mset ms \<longrightarrow>
           totalAttempts (deliver s ms') = totalAttempts (deliver s ms)))
   \<and> (nonneg_deltas ms' \<longrightarrow>
        totalAttempts (deliver s ms) \<le> totalAttempts (deliver s (ms @ ms')))
   \<and> totalAttempts (stop s) = totalAttempts s
   \<and> totalAttempts (progressTick s t t') = totalAttempts s
   \<and> totalAttempts (handleWorkerError s e) = totalAttempts s"
proof -
  have a: "totalAttempts (deliver s ms) = totalAttempts s + sum_list (map delta (accepted ms))"
    if "isRunning s"
    using that by (rule deliver_total)
  have b: "s_totalAttempts (getStats (deliver s ms) now) = totalAttempts (deliver s ms)"
    by (simp add: getStats_def calculatePerformanceStats_def Let_def)
  have c: "nonneg_deltas ms' \<longrightarrow>
          totalAttempts (deliver s ms) \<le> totalAttempts (deliver s (ms @ ms'))"
    using deliver_mono by blast
  have d: "\<not> some_winning ms \<and> mset ms' = mset ms \<longrightarrow>
          totalAttempts (deliver s ms') = totalAttempts (deliver s ms)"
    if "isRunning s"
    using that deliver_perm by blast
  have p: "isRunning s \<longrightarrow>
      totalAttempts (deliver s ms) = totalAttempts s + sum_list (map delta (accepted ms))
      \<and> s_totalAttempts (getStats (deliver s ms) now) =
          totalAttempts s + sum_list (map delta (accepted ms))
      \<and> (\<not> some_winning ms \<and> mset ms' = mset ms \<longrightarrow>
           totalAttempts (deliver s ms') = totalAttempts (deliver s ms))"
    using a b d by auto
  have k: "totalAttempts (stop s) = totalAttempts s
      \<and> totalAttempts (progressTick s t t') = totalAttempts s
      \<and> totalAttempts (handleWorkerError s e) = totalAttempts s"
    by (simp add: totalAttempts_kept)
  from p c k show ?thesis
    by blast
qed

lemma delta_examples:
  "delta (progress_msg 1000) = 1000"
  "delta (found_msg ''0xab34'' ''0x01'' 2) = 2"
  "delta (error_msg ''boom'') = 0"
  by (simp_all add: delta_def progress_msg_def found_msg_def error_msg_def)

lemma winning_examples:
  "winning (found_msg ''0xab34'' ''0x01'' 2)"
  "\<not> winning (progress_msg 1000)"
  "\<not> winning (error_msg ''boom'')"
  by (simp_all add: winning_def found_msg_def progress_msg_def error_msg_def)

theorem attempt_accounting_witness:
  "isRunning example_running
   \<and> totalAttempts (deliver example_running
        [(progress_msg 1000, 1000), (progress_msg 1000, 1500),
         (found_msg ''0xab34'' ''0x01'' 2, 3000), (progress_msg 1000, 3001)]) = 2002
   \<and> s_totalAttempts (getStats (deliver example_running
        [(progress_msg 1000, 1000), (progress_msg 1000, 1500),
         (found_msg ''0xab34'' ''0x01'' 2, 3000), (progress_msg 1000, 3001)]) 4000) = 2002
   \<and> nonneg_deltas [(progress_msg 1000, 3001)]
   \<and> \<not> some_winning [(progress_msg 1000, 10), (error_msg ''boom'', 11)]
   \<and> mset [(error_msg ''boom'', 11), (progress_msg 1000, 10)]
       = mset [(progress_msg 1000, 10), (error_msg ''boom'', 11)]
   \<and> totalAttempts (deliver example_running [(error_msg ''boom'', 11), (progress_msg 1000, 10)])
       = totalAttempts (deliver example_running [(progress_msg 1000, 10), (error_msg ''boom'', 11)])"
proof -
  have r: "isRunning example_running" "totalAttempts example_running = 0"
    by (simp_all add: example_running_def)
  show ?thesis
    using r
      attempt_accounting [of example_running
        "[(progress_msg 1000, 1000), (progress_msg 1000, 1500),
          (found_msg ''0xab34'' ''0x01'' 2, 3000), (progress_msg 1000, 3001)]"
        4000 "[(progress_msg 1000, 3001)]"]
      attempt_accounting [of example_running
        "[(progress_msg 1000, 10), (error_msg ''boom'', 11)]"
        4000 "[(error_msg ''boom'', 11), (progress_msg 1000, 10)]"]
    by (simp add: delta_examples winning_examples)
qed

text \<open>
  The scenario of one worker that draws an address that does not start with \<open>ab\<close> and
  then one that does: the worker posts one \<open>found\<close> message with 2 attempts, and the
  generator reports \<open>found\<close> with the second address and 2 attempts.
\<close>

lemma scenario_worker:
  "worker_loop example_config 0 [(''0x01'', ''0xff00''), (''0x02'', ''0xAB34'')] =
     [found_msg ''0xAB34'' ''0x02'' 2]"
  by (simp add: example_config_def matchesTarget_def slice_def slice_index_def startsWith_def
        toLowerCase_def toLowerCase_char_def PROGRESS_INTERVAL_def)

lemma scenario_generator:
  "totalAttempts (deliver example_running
      (map (\<lambda>m. (m, 3000))
         (worker_loop example_config 0 [(''0x01'', ''0xff00''), (''0x02'', ''0xAB34'')]))) = 2"
proof -
  have "totalAttempts (deliver example_running [(found_msg ''0xAB34'' ''0x02'' 2, 3000)]) = 2"
    using deliver_total [of example_running "[(found_msg ''0xAB34'' ''0x02'' 2, 3000)]"]
    by (simp add: example_running_def winning_def found_msg_def delta_def)
  then show ?thesis
    by (simp only: scenario_worker list.map)
qed

end
